theory Spec2Isabelle
  imports Main "HOL-Library.AList"
begin

section \<open>Python values, errors and strings\<close>

text \<open>
  Configurations are what the YAML loader hands over: nested mappings, sequences and
  scalars. A mapping keeps its insertion order, so it is an association list; keys are
  strings. Floating point scalars are left out of the model.
\<close>

datatype pyval =
    PNone
  | PBool bool
  | PInt int
  | PStr string
  | PList "pyval list"
  | PDict "(string \<times> pyval) list"

type_synonym pydict = "(string \<times> pyval) list"

text \<open>Every exception the modelled code can raise is a value of this type.\<close>

datatype error =
    NameError string
  | UnboundLocalError string
  | TypeError string
  | ValueError string
  | KeyError string
  | IndexError string
  | AttributeError string
  | SystemExit string
  | ExternalError string

text \<open>
  \<open>d.get(k, default)\<close>, \<open>d[k]\<close>, \<open>k in d\<close>, \<open>d[k] = v\<close> and \<open>del d[k]\<close> on an
  insertion-ordered mapping. Assigning to a key that is present keeps its position;
  a new key goes to the end.
\<close>

definition dict_get :: "pydict \<Rightarrow> string \<Rightarrow> pyval \<Rightarrow> pyval" where
  "dict_get d k dflt = (case map_of d k of None \<Rightarrow> dflt | Some v \<Rightarrow> v)"

definition dict_contains :: "pydict \<Rightarrow> string \<Rightarrow> bool" where
  "dict_contains d k = (case map_of d k of None \<Rightarrow> False | Some v \<Rightarrow> True)"

definition dict_getitem :: "pydict \<Rightarrow> string \<Rightarrow> error + pyval" where
  "dict_getitem d k = (case map_of d k of None \<Rightarrow> Inl (KeyError k) | Some v \<Rightarrow> Inr v)"

definition dict_setitem :: "string \<Rightarrow> pyval \<Rightarrow> pydict \<Rightarrow> pydict" where
  "dict_setitem k v d = AList.update k v d"

definition dict_delitem :: "string \<Rightarrow> pydict \<Rightarrow> error + pydict" where
  "dict_delitem k d =
     (case map_of d k of None \<Rightarrow> Inl (KeyError k) | Some v \<Rightarrow> Inr (AList.delete k d))"

text \<open>
  Strings are lists of characters. The case operations are given on the ASCII
  characters, where they need no table of the Python runtime: the letters are the 52
  ASCII letters, and any other ASCII character has no case. Class and module names are
  ASCII letters (the data model of the specification), and this is the range
  \<open>camelcase_to_underscore\<close> is modelled on; the title of a variable, which can be
  any string, leaves the characters outside ASCII to the Unicode title-casing of the
  runtime (see \<open>str_title\<close>).
\<close>

definition ascii_uppercase :: string where
  "ascii_uppercase = ''ABCDEFGHIJKLMNOPQRSTUVWXYZ''"

definition ascii_lowercase :: string where
  "ascii_lowercase = ''abcdefghijklmnopqrstuvwxyz''"

definition ch_isupper :: "char \<Rightarrow> bool" where
  "ch_isupper c = (c \<in> set ascii_uppercase)"

definition ch_islower :: "char \<Rightarrow> bool" where
  "ch_islower c = (c \<in> set ascii_lowercase)"

definition ch_isalpha :: "char \<Rightarrow> bool" where
  "ch_isalpha c = (ch_isupper c \<or> ch_islower c)"

definition ch_lower :: "char \<Rightarrow> char" where
  "ch_lower c = (case map_of (zip ascii_uppercase ascii_lowercase) c of
                   None \<Rightarrow> c | Some l \<Rightarrow> l)"

definition ch_upper :: "char \<Rightarrow> char" where
  "ch_upper c = (case map_of (zip ascii_lowercase ascii_uppercase) c of
                   None \<Rightarrow> c | Some u \<Rightarrow> u)"

text \<open>\<open>s.isalpha()\<close> on a string of ASCII characters: false on the empty string.\<close>

definition str_isalpha :: "string \<Rightarrow> bool" where
  "str_isalpha s = (s \<noteq> [] \<and> list_all ch_isalpha s)"

section \<open>utilities/utils.py\<close>

subsection \<open>camelcase_to_underscore\<close>

text \<open>
  The loop over the elements of the string: an upper case element is replaced by an
  underscore and its lower case form, any other element is kept, and the new element is
  added at the end of the output string.
\<close>

definition new_element :: "char \<Rightarrow> string" where
  "new_element element =
     (if ch_isupper element then CHR ''_'' # [ch_lower element] else [element])"

fun underscore_loop :: "string \<Rightarrow> string \<Rightarrow> string" where
  "underscore_loop underscore_string [] = underscore_string"
| "underscore_loop underscore_string (element # rest) =
     underscore_loop (underscore_string @ new_element element) rest"

text \<open>
  \<open>camelcase_to_underscore\<close> takes any Python value: a value that is not a string is a
  \<open>TypeError\<close>, a string that is not alphabetic a \<open>ValueError\<close>. Reading element 0 of
  an empty output string would be an \<open>IndexError\<close>.
\<close>

definition camelcase_to_underscore :: "pyval \<Rightarrow> error + string" where
  "camelcase_to_underscore CamelCaseString =
     (case CamelCaseString of
        PStr s \<Rightarrow>
          if \<not> str_isalpha s
          then Inl (ValueError ''Only a-z A-Z characters allowed in module name.'')
          else
            (case underscore_loop [] s of
               [] \<Rightarrow> Inl (IndexError ''string index out of range'')
             | c # cs \<Rightarrow> Inr (if c = CHR ''_'' then cs else c # cs))
      | _ \<Rightarrow> Inl (TypeError ''diagnostic name should be a str type''))"

text \<open>
  The reading of the specification's round trip: capitalisation is put back at each
  boundary made of an underscore followed by a character.
\<close>

fun recapitalize :: "string \<Rightarrow> string" where
  "recapitalize (u # x # rest) =
     (if u = CHR ''_'' then ch_upper x # recapitalize rest
      else u # recapitalize (x # rest))"
| "recapitalize s = s"

subsection \<open>load_yaml_file and get_schema\<close>

text \<open>
  Modelled from the spec: the logger's \<open>abort\<close> is not among the sources; all abort
  paths print a diagnostic message before terminating, so \<open>abort\<close> is the exception
  that ends the process.
\<close>

definition logger_abort :: "string \<Rightarrow> error" where
  "logger_abort msg = SystemExit msg"

text \<open>
  Opening and parsing a YAML file is outside the program: \<open>read_yaml\<close> stands for it,
  taking the value given to \<open>open\<close> and giving the parsed document, a mapping, or the
  exception raised. Any exception makes \<open>load_yaml_file\<close> abort.
\<close>

definition load_yaml_file :: "(pyval \<Rightarrow> error + pydict) \<Rightarrow> pyval \<Rightarrow> error + pydict" where
  "load_yaml_file read_yaml eva_config =
     (case read_yaml eva_config of
        Inl e \<Rightarrow> Inl (logger_abort ''Eva diagnostics is expecting a valid yaml file'')
      | Inr eva_dict \<Rightarrow> Inr eva_dict)"

text \<open>The truth value of a list used as a condition: a list is true unless empty.\<close>

definition list_truth :: "'a list \<Rightarrow> bool" where
  "list_truth xs = (xs \<noteq> [])"

definition skipvars :: "string list" where
  "skipvars = [''type'', ''comparison'']"

definition schema_msg :: "string \<Rightarrow> string" where
  "schema_msg key = [CHR 0x27] @ key @ [CHR 0x27] @ '' not in default schema. Not a valid entry.''"

text \<open>
  The loop of \<open>get_schema\<close> over the items of \<open>configDict\<close>; its condition is
  \<open>key in fullConfig or skipvars\<close>.
\<close>

fun get_schema_loop :: "pydict \<Rightarrow> pydict \<Rightarrow> error + pydict" where
  "get_schema_loop fullConfig [] = Inr fullConfig"
| "get_schema_loop fullConfig ((key, val) # rest) =
     (if dict_contains fullConfig key \<or> list_truth skipvars
      then get_schema_loop (dict_setitem key val fullConfig) rest
      else Inl (ValueError (schema_msg key)))"

definition get_schema :: "(pyval \<Rightarrow> error + pydict) \<Rightarrow> pyval \<Rightarrow> pydict \<Rightarrow> error + pydict" where
  "get_schema read_yaml YamlFile configDict =
     (case load_yaml_file read_yaml YamlFile of
        Inl e \<Rightarrow> Inl e
      | Inr fullConfig \<Rightarrow> get_schema_loop fullConfig configDict)"

section \<open>base.py\<close>

subsection \<open>Config\<close>

text \<open>
  A name that a function never assigns is looked up among the globals of its module and
  then the builtins; a name it assigns somewhere is a local variable from the start of
  the function, and reading it before its assignment is an \<open>UnboundLocalError\<close>.
  \<open>base_globals\<close> are the names bound at the top level of base.py.
\<close>

definition base_globals :: "string list" where
  "base_globals =
     [''ABC'', ''abstractmethod'', ''argparse'', ''importlib'', ''json'', ''os'', ''re'',
      ''sys'', ''yaml'', ''Logger'', ''camelcase_to_underscore'', ''envvar_constructor'',
      ''load_yaml_file'', ''Config'', ''Base'', ''Factory'', ''create_and_run'',
      ''loop_and_create_and_run'', ''main'']"

definition builtins_used :: "string list" where
  "builtins_used = [''print'', ''type'', ''dict'', ''super'', ''getattr'', ''len'']"

definition load_global :: "string \<Rightarrow> error + unit" where
  "load_global name =
     (if name \<in> set base_globals \<or> name \<in> set builtins_used then Inr ()
      else Inl (NameError name))"

definition load_fast :: "(string \<times> pyval) list \<Rightarrow> string \<Rightarrow> error + pyval" where
  "load_fast locals name =
     (case map_of locals name of None \<Rightarrow> Inl (UnboundLocalError name) | Some v \<Rightarrow> Inr v)"

text \<open>
  \<open>Config.__init__\<close>: the two \<open>print\<close> calls read \<open>eva_class_name\<close> and
  \<open>config\<close>; then a dictionary is taken as it is and anything else is loaded as a
  YAML file (base.py's own loader, which lets the exception through); the mapping
  initialises the parent \<open>dict\<close>. The JSON text built on the way is not used.
\<close>

definition Config_init :: "(pyval \<Rightarrow> error + pydict) \<Rightarrow> pyval \<Rightarrow> error + pydict" where
  "Config_init read_yaml dict_or_yaml =
     (let locals = [(''dict_or_yaml'', dict_or_yaml)] in
      case load_global ''eva_class_name'' of
        Inl e \<Rightarrow> Inl e
      | Inr u \<Rightarrow>
          (case load_fast locals ''config'' of
             Inl e \<Rightarrow> Inl e
           | Inr c \<Rightarrow>
               (case (case dict_or_yaml of PDict d \<Rightarrow> Inr d | y \<Rightarrow> read_yaml y) of
                  Inl e \<Rightarrow> Inl e
                | Inr config \<Rightarrow> Inr config)))"

section \<open>plot_tools/figure_driver.py\<close>

subsection \<open>Strings of the batch loop\<close>

text \<open>\<open>s.replace(old, new)\<close> for one-character \<open>old\<close> and \<open>new\<close>.\<close>

definition str_replace :: "char \<Rightarrow> char \<Rightarrow> string \<Rightarrow> string" where
  "str_replace old new s = map (\<lambda>c. if c = old then new else c) s"

text \<open>
  \<open>s.title()\<close> on a string of ASCII characters: a letter that follows a letter is put
  in lower case, any other letter in upper case, and every other character is kept.
\<close>

fun title_loop :: "bool \<Rightarrow> string \<Rightarrow> string" where
  "title_loop previous_is_cased [] = []"
| "title_loop previous_is_cased (c # cs) =
     (if previous_is_cased then ch_lower c else ch_upper c) # title_loop (ch_isalpha c) cs"

definition str_isascii :: "string \<Rightarrow> bool" where
  "str_isascii s = list_all (\<lambda>c. (of_char c :: nat) < 128) s"

text \<open>
  A string with a character outside ASCII is title-cased by the Unicode tables of the
  Python runtime, which are not part of the program: \<open>unicode_title\<close> stands for
  \<open>str.title\<close> on such strings.
\<close>

definition str_title :: "(string \<Rightarrow> string) \<Rightarrow> string \<Rightarrow> string" where
  "str_title unicode_title s = (if str_isascii s then title_loop False s else unicode_title s)"

text \<open>\<open>str\<close> of an integer: its decimal digits, with a minus sign when negative.\<close>

definition digit_char :: "nat \<Rightarrow> char" where
  "digit_char d = ''0123456789'' ! d"

fun str_nat :: "nat \<Rightarrow> string" where
  "str_nat n = (if n < 10 then [digit_char n] else str_nat (n div 10) @ [digit_char (n mod 10)])"

declare str_nat.simps [simp del]

definition str_int :: "int \<Rightarrow> string" where
  "str_int i = (if i < 0 then CHR ''-'' # str_nat (nat (- i)) else str_nat (nat i))"

text \<open>
  The channel tokens the channel-list parser returns: channel numbers, or strings.
\<close>

datatype channel = ChanInt int | ChanStr string

definition str_channel :: "channel \<Rightarrow> string" where
  "str_channel channel = (case channel of ChanInt i \<Rightarrow> str_int i | ChanStr s \<Rightarrow> s)"

subsection \<open>The batch loop of execute\<close>

text \<open>
  Iterating a value, as a \<open>for\<close> loop does: a list gives its elements, a string its
  characters, a mapping its keys; nothing else can be iterated.
\<close>

definition py_iter :: "pyval \<Rightarrow> error + pyval list" where
  "py_iter v =
     (case v of
        PList xs \<Rightarrow> Inr xs
      | PStr s \<Rightarrow> Inr (map (\<lambda>c. PStr [c]) s)
      | PDict d \<Rightarrow> Inr (map (\<lambda>kv. PStr (fst kv)) d)
      | _ \<Rightarrow> Inl (TypeError ''object is not iterable''))"

text \<open>The truth value of a value used as a condition.\<close>

definition py_truth :: "pyval \<Rightarrow> bool" where
  "py_truth v =
     (case v of
        PNone \<Rightarrow> False
      | PBool b \<Rightarrow> b
      | PInt i \<Rightarrow> i \<noteq> 0
      | PStr s \<Rightarrow> s \<noteq> []
      | PList xs \<Rightarrow> xs \<noteq> []
      | PDict d \<Rightarrow> d \<noteq> [])"

text \<open>\<open>v.get(k, default)\<close> on any value: only a mapping has the method.\<close>

definition py_get :: "pyval \<Rightarrow> string \<Rightarrow> pyval \<Rightarrow> error + pyval" where
  "py_get v k dflt =
     (case v of PDict d \<Rightarrow> Inr (dict_get d k dflt) | _ \<Rightarrow> Inl (AttributeError ''get''))"

text \<open>The substitution mapping of one iteration, built key by key.\<close>

definition batch_conf_this ::
  "(string \<Rightarrow> string) \<Rightarrow> string \<Rightarrow> channel \<Rightarrow> (string \<times> string) list" where
  "batch_conf_this unicode_title variable channel =
     (let b0 = AList.update ''variable'' variable [];
          b1 = AList.update ''variable_title''
                 (str_title unicode_title (str_replace (CHR ''_'') (CHR '' '') variable)) b0;
          channel_str = str_channel channel
      in if channel_str \<noteq> ''none''
         then
           (let b2 = AList.update ''channel'' channel_str b1;
                var_title =
                  (case map_of b2 ''variable_title'' of None \<Rightarrow> [] | Some t \<Rightarrow> t)
                    @ '' Ch. '' @ channel_str
            in AList.update ''variable_title'' var_title b2)
         else b1)"

text \<open>
  A shallow copy is a new object with the items of the old one; as a value it is the
  value copied.
\<close>

definition copy_copy :: "pyval \<Rightarrow> pyval" where
  "copy_copy v = v"

text \<open>
  The loops over the channels and the variables. \<open>replace_vars_dict\<close> (the template
  substitution, not among the sources), \<open>make_figure\<close> and the Unicode title-casing
  are parameters; the state
  \<open>'w\<close> is whatever \<open>make_figure\<close> works on, and an exception ends the loops. A
  variable that is not a string has no \<open>replace\<close> method.
\<close>

fun channels_loop ::
  "(string \<Rightarrow> string) \<Rightarrow>
   (pyval \<Rightarrow> (string \<times> string) list \<Rightarrow> pyval) \<Rightarrow>
   (pyval \<Rightarrow> pyval \<Rightarrow> 'w \<Rightarrow> (error + unit) \<times> 'w) \<Rightarrow>
   pyval \<Rightarrow> pyval \<Rightarrow> pyval \<Rightarrow> channel list \<Rightarrow> 'w \<Rightarrow> (error + unit) \<times> 'w" where
  "channels_loop unicode_title replace_vars_dict make_figure figure_conf plots_conf variable [] w = (Inr (), w)"
| "channels_loop unicode_title replace_vars_dict make_figure figure_conf plots_conf variable (channel # rest) w =
     (case variable of
        PStr v \<Rightarrow>
          (let this = batch_conf_this unicode_title v channel;
               figure_conf_fill = replace_vars_dict (copy_copy figure_conf) this;
               plots_conf_fill = replace_vars_dict (copy_copy plots_conf) this
           in case make_figure figure_conf_fill plots_conf_fill w of
                (Inl e, w') \<Rightarrow> (Inl e, w')
              | (Inr u, w') \<Rightarrow>
                  channels_loop unicode_title replace_vars_dict make_figure figure_conf plots_conf
                    variable rest w')
      | _ \<Rightarrow> (Inl (AttributeError ''replace''), w))"

fun variables_loop ::
  "(string \<Rightarrow> string) \<Rightarrow>
   (pyval \<Rightarrow> (string \<times> string) list \<Rightarrow> pyval) \<Rightarrow>
   (pyval \<Rightarrow> pyval \<Rightarrow> 'w \<Rightarrow> (error + unit) \<times> 'w) \<Rightarrow>
   pyval \<Rightarrow> pyval \<Rightarrow> pyval list \<Rightarrow> channel list \<Rightarrow> 'w \<Rightarrow> (error + unit) \<times> 'w" where
  "variables_loop unicode_title replace_vars_dict make_figure figure_conf plots_conf [] channels w = (Inr (), w)"
| "variables_loop unicode_title replace_vars_dict make_figure figure_conf plots_conf (variable # rest) channels w =
     (case channels_loop unicode_title replace_vars_dict make_figure figure_conf plots_conf variable channels w of
        (Inl e, w') \<Rightarrow> (Inl e, w')
      | (Inr u, w') \<Rightarrow>
          variables_loop unicode_title replace_vars_dict make_figure figure_conf plots_conf rest channels w')"

text \<open>
  The batch branch of \<open>execute\<close> from the two checks on: no variables is an abort, no
  channels gives the one channel \<open>none\<close>.
\<close>

definition batch_loops ::
  "(string \<Rightarrow> string) \<Rightarrow>
   (pyval \<Rightarrow> (string \<times> string) list \<Rightarrow> pyval) \<Rightarrow>
   (pyval \<Rightarrow> pyval \<Rightarrow> 'w \<Rightarrow> (error + unit) \<times> 'w) \<Rightarrow>
   pyval \<Rightarrow> pyval \<Rightarrow> pyval \<Rightarrow> channel list \<Rightarrow> 'w \<Rightarrow> (error + unit) \<times> 'w" where
  "batch_loops unicode_title replace_vars_dict make_figure figure_conf plots_conf variables channels0 w =
     (if variables = PList []
      then (Inl (logger_abort ''Batch Figure must provide variables, even if with channels''), w)
      else
        (let channels = (if channels0 = [] then [ChanStr ''none''] else channels0)
         in case py_iter variables of
              Inl e \<Rightarrow> (Inl e, w)
            | Inr vs \<Rightarrow>
                variables_loop unicode_title replace_vars_dict make_figure figure_conf plots_conf vs channels w))"

text \<open>
  The body of the loop of \<open>execute\<close> over the graphics. \<open>parse_channel_list\<close> is
  not among the sources and is a parameter, as is the path of the default schema.
\<close>

definition execute_graphic ::
  "(string \<Rightarrow> string) \<Rightarrow>
   (pyval \<Rightarrow> error + pydict) \<Rightarrow> (pyval \<Rightarrow> error + channel list) \<Rightarrow>
   (pyval \<Rightarrow> (string \<times> string) list \<Rightarrow> pyval) \<Rightarrow>
   (pyval \<Rightarrow> pyval \<Rightarrow> 'w \<Rightarrow> (error + unit) \<times> 'w) \<Rightarrow>
   string \<Rightarrow> pyval \<Rightarrow> 'w \<Rightarrow> (error + unit) \<times> 'w" where
  "execute_graphic unicode_title read_yaml parse_channel_list replace_vars_dict make_figure default_schema
     graphic w =
     (case graphic of
        PDict g \<Rightarrow>
          (let batch_conf = dict_get g ''batch figure'' (PDict []);
               figure_conf0 = dict_get g ''figure'' PNone;
               plots_conf = dict_get g ''plots'' PNone
           in case figure_conf0 of
                PDict fc \<Rightarrow>
                  (let fig_schema = dict_get fc ''schema'' (PStr default_schema)
                   in case get_schema read_yaml fig_schema fc of
                        Inl e \<Rightarrow> (Inl e, w)
                      | Inr figure_conf \<Rightarrow>
                          if py_truth batch_conf
                          then
                            (case py_get batch_conf ''variables'' (PList []) of
                               Inl e \<Rightarrow> (Inl e, w)
                             | Inr variables \<Rightarrow>
                                 (case py_get batch_conf ''channels'' (PList []) of
                                    Inl e \<Rightarrow> (Inl e, w)
                                  | Inr channels_str_or_list \<Rightarrow>
                                      (case parse_channel_list channels_str_or_list of
                                         Inl e \<Rightarrow> (Inl e, w)
                                       | Inr channels \<Rightarrow>
                                           batch_loops unicode_title replace_vars_dict make_figure
                                             (PDict figure_conf) plots_conf variables channels w)))
                          else make_figure (PDict figure_conf) plots_conf w)
              | _ \<Rightarrow> (Inl (AttributeError ''get''), w))
      | _ \<Rightarrow> (Inl (AttributeError ''get''), w))"

text \<open>\<open>execute\<close>: the loop over the graphics of the configuration.\<close>

fun graphics_loop ::
  "(string \<Rightarrow> string) \<Rightarrow>
   (pyval \<Rightarrow> error + pydict) \<Rightarrow> (pyval \<Rightarrow> error + channel list) \<Rightarrow>
   (pyval \<Rightarrow> (string \<times> string) list \<Rightarrow> pyval) \<Rightarrow>
   (pyval \<Rightarrow> pyval \<Rightarrow> 'w \<Rightarrow> (error + unit) \<times> 'w) \<Rightarrow>
   string \<Rightarrow> pyval list \<Rightarrow> 'w \<Rightarrow> (error + unit) \<times> 'w" where
  "graphics_loop unicode_title read_yaml parse_channel_list replace_vars_dict make_figure default_schema [] w =
     (Inr (), w)"
| "graphics_loop unicode_title read_yaml parse_channel_list replace_vars_dict make_figure default_schema
     (graphic # rest) w =
     (case execute_graphic unicode_title read_yaml parse_channel_list replace_vars_dict make_figure
             default_schema graphic w of
        (Inl e, w') \<Rightarrow> (Inl e, w')
      | (Inr u, w') \<Rightarrow>
          graphics_loop unicode_title read_yaml parse_channel_list replace_vars_dict make_figure
            default_schema rest w')"

definition execute ::
  "(string \<Rightarrow> string) \<Rightarrow>
   (pyval \<Rightarrow> error + pydict) \<Rightarrow> (pyval \<Rightarrow> error + channel list) \<Rightarrow>
   (pyval \<Rightarrow> (string \<times> string) list \<Rightarrow> pyval) \<Rightarrow>
   (pyval \<Rightarrow> pyval \<Rightarrow> 'w \<Rightarrow> (error + unit) \<times> 'w) \<Rightarrow>
   string \<Rightarrow> pydict \<Rightarrow> 'w \<Rightarrow> (error + unit) \<times> 'w" where
  "execute unicode_title read_yaml parse_channel_list replace_vars_dict make_figure default_schema config w =
     (case py_iter (dict_get config ''graphics'' PNone) of
        Inl e \<Rightarrow> (Inl e, w)
      | Inr graphics \<Rightarrow>
          graphics_loop unicode_title read_yaml parse_channel_list replace_vars_dict make_figure
            default_schema graphics w)"

text \<open>
  A \<open>make_figure\<close> that only records the configurations it is called with, to read the
  sequence of figures off the loops.
\<close>

definition record_figure :: "pyval \<Rightarrow> pyval \<Rightarrow> (pyval \<times> pyval) list \<Rightarrow> (error + unit) \<times> (pyval \<times> pyval) list" where
  "record_figure figure_conf plots w = (Inr (), w @ [(figure_conf, plots)])"

subsection \<open>get_saveargs and get_output_file\<close>

text \<open>
  \<open>get_saveargs\<close> works on the mapping object it is given, so the objects are kept in
  a store: an address holds a mapping, and a variable holds an address. \<open>out_conf\<close> is
  bound to the address in \<open>figure_conf\<close>.
\<close>

type_synonym store = "nat \<Rightarrow> pydict"

definition delvars :: "string list" where
  "delvars = [''layout'', ''figure file type'', ''output path'', ''figure size'', ''title'']"

fun delvars_loop :: "nat \<Rightarrow> string list \<Rightarrow> store \<Rightarrow> (error + unit) \<times> store" where
  "delvars_loop out_conf [] h = (Inr (), h)"
| "delvars_loop out_conf (d # ds) h =
     (case dict_delitem d (h out_conf) of
        Inl e \<Rightarrow> (Inl e, h)
      | Inr del \<Rightarrow> delvars_loop out_conf ds (h(out_conf := del)))"

definition get_saveargs :: "nat \<Rightarrow> store \<Rightarrow> (error + nat) \<times> store" where
  "get_saveargs figure_conf h =
     (let out_conf = figure_conf in
      case dict_getitem (h figure_conf) ''figure file type'' of
        Inl e \<Rightarrow> (Inl e, h)
      | Inr file_type \<Rightarrow>
          (let h1 = h(out_conf := dict_setitem ''format'' file_type (h out_conf)) in
           case delvars_loop out_conf delvars h1 of
             (Inl e, h2) \<Rightarrow> (Inl e, h2)
           | (Inr u, h2) \<Rightarrow> (Inr out_conf, h2)))"

text \<open>\<open>os.path.join\<close> of two components, on POSIX paths; both must be strings.\<close>

definition os_path_join :: "pyval \<Rightarrow> pyval \<Rightarrow> error + string" where
  "os_path_join a b =
     (case a of
        PStr path \<Rightarrow>
          (case b of
             PStr name \<Rightarrow>
               Inr (if name \<noteq> [] \<and> hd name = CHR ''/'' then name
                    else if path = [] \<or> last path = CHR ''/'' then path @ name
                    else path @ ''/'' @ name)
           | _ \<Rightarrow> Inl (TypeError ''join() argument must be str''))
      | _ \<Rightarrow> Inl (TypeError ''join() argument must be str''))"

definition get_output_file :: "pydict \<Rightarrow> error + string" where
  "get_output_file figure_conf =
     (let file_path = dict_get figure_conf ''output path'' (PStr ''./'');
          output_name = dict_get figure_conf ''output name'' (PStr [])
      in os_path_join file_path output_name)"

subsection \<open>make_figure\<close>

text \<open>
  The plotting classes are outside the program. Each call to them is an event; the
  parameter \<open>ext\<close> tells, for each event, whether the call returns or which exception
  it raises, and the state keeps the events in the order of the calls. A layer object
  is known by its class and configuration, a subplot by its position in the plot list.
\<close>

datatype callargs = Keywords pydict | NoArgument | Positional pyval

datatype event =
    ImportLayer string string
  | BuildLayer string pyval
  | CreatePlot "(string \<times> pyval) list" "string option" "string option"
  | PlotMethod nat string callargs
  | CreateFigure pyval pyval "pyval list"
  | SetPlotList nat
  | DrawFigure
  | AddSuptitle pyval
  | SaveFigure string pydict
  | CloseFigure

record world =
  heap :: store
  trace :: "event list"

definition then_do ::
  "('w \<Rightarrow> (error + 'a) \<times> 'w) \<Rightarrow> ('a \<Rightarrow> 'w \<Rightarrow> (error + 'b) \<times> 'w) \<Rightarrow> 'w \<Rightarrow> (error + 'b) \<times> 'w" where
  "then_do m f w = (case m w of (Inl e, w') \<Rightarrow> (Inl e, w') | (Inr x, w') \<Rightarrow> f x w')"

definition lift :: "error + 'a \<Rightarrow> 'w \<Rightarrow> (error + 'a) \<times> 'w" where
  "lift r w = (r, w)"

definition call_ext :: "(event \<Rightarrow> error option) \<Rightarrow> event \<Rightarrow> world \<Rightarrow> (error + unit) \<times> world" where
  "call_ext ext ev w =
     ((case ext ev of None \<Rightarrow> Inr () | Some e \<Rightarrow> Inl e), w\<lparr>trace := trace w @ [ev]\<rparr>)"

definition log_event :: "event \<Rightarrow> world \<Rightarrow> (error + unit) \<times> world" where
  "log_event ev w = (Inr (), w\<lparr>trace := trace w @ [ev]\<rparr>)"

definition get_conf :: "nat \<Rightarrow> world \<Rightarrow> (error + pydict) \<times> world" where
  "get_conf a w = (Inr (heap w a), w)"

definition on_heap :: "(store \<Rightarrow> (error + 'a) \<times> store) \<Rightarrow> world \<Rightarrow> (error + 'a) \<times> world" where
  "on_heap f w = (case f (heap w) of (r, h') \<Rightarrow> (r, w\<lparr>heap := h'\<rparr>))"

text \<open>\<open>v[i]\<close> for a natural number \<open>i\<close>, and \<open>tuple(v)\<close>.\<close>

definition py_index :: "pyval \<Rightarrow> nat \<Rightarrow> error + pyval" where
  "py_index v i =
     (case v of
        PList xs \<Rightarrow>
          if i < length xs then Inr (xs ! i) else Inl (IndexError ''list index out of range'')
      | PStr s \<Rightarrow>
          if i < length s then Inr (PStr [s ! i]) else Inl (IndexError ''string index out of range'')
      | PDict d \<Rightarrow> Inl (KeyError (str_nat i))
      | _ \<Rightarrow> Inl (TypeError ''object is not subscriptable''))"

definition py_tuple :: "pyval \<Rightarrow> error + pyval list" where
  "py_tuple v = py_iter v"

text \<open>The loop over the layers of one plot.\<close>

fun layers_loop ::
  "(event \<Rightarrow> error option) \<Rightarrow> pyval list \<Rightarrow> (string \<times> pyval) list \<Rightarrow> world \<Rightarrow>
   (error + (string \<times> pyval) list) \<times> world" where
  "layers_loop ext [] layer_list = lift (Inr layer_list)"
| "layers_loop ext (layer # rest) layer_list =
     then_do (lift (py_get layer ''type'' PNone)) (\<lambda>eva_class_name.
     then_do (lift (camelcase_to_underscore eva_class_name)) (\<lambda>eva_module_name.
     (let full_module = ''eva.diagnostics.'' @ eva_module_name;
          cls = (case eva_class_name of PStr n \<Rightarrow> n | _ \<Rightarrow> [])
      in then_do (call_ext ext (ImportLayer full_module cls)) (\<lambda>u.
         then_do (call_ext ext (BuildLayer cls layer)) (\<lambda>u.
         layers_loop ext rest (layer_list @ [(cls, layer)]))))))"

text \<open>
  The loop over the items of one plot: every key but \<open>layers\<close> and \<open>mapping\<close> is a
  method of the subplot, called with the value as keywords, with nothing, or with the
  value itself.
\<close>

fun plot_items_loop ::
  "(event \<Rightarrow> error option) \<Rightarrow> nat \<Rightarrow> pydict \<Rightarrow> world \<Rightarrow> (error + unit) \<times> world" where
  "plot_items_loop ext plotobj [] = lift (Inr ())"
| "plot_items_loop ext plotobj ((key, val) # rest) =
     (if key \<notin> set [''layers'', ''mapping'']
      then
        then_do
          (case val of
             PDict kw \<Rightarrow> call_ext ext (PlotMethod plotobj key (Keywords kw))
           | PNone \<Rightarrow> call_ext ext (PlotMethod plotobj key NoArgument)
           | _ \<Rightarrow> call_ext ext (PlotMethod plotobj key (Positional val)))
          (\<lambda>u. plot_items_loop ext plotobj rest)
      else plot_items_loop ext plotobj rest)"

text \<open>The loop over the plots; \<open>plot_list\<close> counts the subplots made so far.\<close>

fun plots_loop ::
  "(event \<Rightarrow> error option) \<Rightarrow> pyval list \<Rightarrow> nat \<Rightarrow> world \<Rightarrow> (error + nat) \<times> world" where
  "plots_loop ext [] plot_list = lift (Inr plot_list)"
| "plots_loop ext (plot # rest) plot_list =
     then_do (lift (py_get plot ''layers'' PNone)) (\<lambda>layers.
     then_do (lift (py_iter layers)) (\<lambda>ls.
     then_do (layers_loop ext ls []) (\<lambda>layer_list.
     (let p = (case plot of PDict d \<Rightarrow> d | _ \<Rightarrow> []);
          proj = (if dict_contains p ''mapping'' then Some ''plcarr'' else None);
          domain = (if dict_contains p ''mapping'' then Some ''global'' else None)
      in then_do (call_ext ext (CreatePlot layer_list proj domain)) (\<lambda>u.
         then_do (plot_items_loop ext plot_list p) (\<lambda>u.
         plots_loop ext rest (Suc plot_list)))))))"

text \<open>
  \<open>make_figure\<close>: \<open>figure_conf\<close> is the address of the figure configuration,
  \<open>plots\<close> the value of the plots configuration. The layout and the file type read
  at the start (the file type with the default \<open>png\<close>) are not used afterwards.
\<close>

definition make_figure ::
  "(event \<Rightarrow> error option) \<Rightarrow> nat \<Rightarrow> pyval \<Rightarrow> world \<Rightarrow> (error + unit) \<times> world" where
  "make_figure ext figure_conf plots =
     then_do (get_conf figure_conf) (\<lambda>conf.
     (let figure_layout = dict_get conf ''layout'' PNone;
          file_type = dict_get conf ''figure file type'' (PStr ''png'')
      in
     then_do (lift (get_output_file conf)) (\<lambda>output_file.
     then_do (lift (py_iter plots)) (\<lambda>ps.
     then_do (plots_loop ext ps 0) (\<lambda>plot_list.
     then_do (lift (dict_getitem conf ''layout'')) (\<lambda>layout0.
     then_do (lift (py_index layout0 0)) (\<lambda>nrows.
     then_do (lift (dict_getitem conf ''layout'')) (\<lambda>layout1.
     then_do (lift (py_index layout1 1)) (\<lambda>ncols.
     then_do (lift (dict_getitem conf ''figure size'')) (\<lambda>figure_size.
     then_do (lift (py_tuple figure_size)) (\<lambda>figsize.
     then_do (call_ext ext (CreateFigure nrows ncols figsize)) (\<lambda>u.
     then_do (log_event (SetPlotList plot_list)) (\<lambda>u.
     then_do (call_ext ext DrawFigure) (\<lambda>u.
     then_do
       (if dict_contains conf ''title''
        then then_do (lift (dict_getitem conf ''title'')) (\<lambda>title. call_ext ext (AddSuptitle title))
        else lift (Inr ())) (\<lambda>u.
     then_do (on_heap (get_saveargs figure_conf)) (\<lambda>saveargs.
     then_do (get_conf saveargs) (\<lambda>kwargs.
     then_do (call_ext ext (SaveFigure output_file kwargs)) (\<lambda>u.
     call_ext ext CloseFigure))))))))))))))))))"

section \<open>Notions and examples used in the statements\<close>

text \<open>The title form of a variable name, as the batch loop computes it.\<close>

definition variable_title :: "(string \<Rightarrow> string) \<Rightarrow> string \<Rightarrow> string" where
  "variable_title unicode_title variable =
     str_title unicode_title (str_replace (CHR ''_'') (CHR '' '') variable)"

text \<open>
  The examples are all strings of ASCII characters, for which the Unicode title-casing
  is never asked; there this function stands in for it.
\<close>

definition no_unicode_title :: "string \<Rightarrow> string" where
  "no_unicode_title s = s"








text \<open>
  A substitution that turns every configuration into the title of the iteration: the
  template \<open>{variable_title}\<close> filled in.
\<close>

definition title_only :: "pyval \<Rightarrow> (string \<times> string) list \<Rightarrow> pyval" where
  "title_only conf this = PStr (case map_of this ''variable_title'' of None \<Rightarrow> [] | Some t \<Rightarrow> t)"

text \<open>
  Reading a decimal numeral back: the inverse that shows \<open>str\<close> to be one-to-one on
  the integers.
\<close>

fun digit_val :: "char \<Rightarrow> nat" where
  "digit_val c = length (takeWhile (\<lambda>d. d \<noteq> c) ''0123456789'')"

definition parse_nat :: "string \<Rightarrow> nat" where
  "parse_nat s = foldl (\<lambda>a c. 10 * a + digit_val c) 0 s"

text \<open>The events that are neither the save nor the close of the figure.\<close>

definition before_save :: "event \<Rightarrow> bool" where
  "before_save ev = (case ev of SaveFigure f k \<Rightarrow> False | CloseFigure \<Rightarrow> False | _ \<Rightarrow> True)"

text \<open>\<open>adds w w' t\<close>: from \<open>w\<close> to \<open>w'\<close> the events \<open>t\<close> were added to the trace.\<close>

definition adds :: "world \<Rightarrow> world \<Rightarrow> event list \<Rightarrow> bool" where
  "adds w w' t = (trace w' = trace w @ t)"

text \<open>Two plotting libraries: one whose calls all return, one whose save raises.\<close>

definition all_return :: "event \<Rightarrow> error option" where
  "all_return ev = None"

definition save_fails :: "event \<Rightarrow> error option" where
  "save_fails ev =
     (case ev of SaveFigure f k \<Rightarrow> Some (ExternalError ''save failed'') | _ \<Rightarrow> None)"

text \<open>
  Figure configurations: a full one, one without the optional title, and one without
  the file type; and the store that holds a configuration at address 0.
\<close>

definition example_figure_conf :: pydict where
  "example_figure_conf =
     [(''layout'', PList [PInt 1, PInt 2]), (''figure size'', PList [PInt 8, PInt 6]),
      (''figure file type'', PStr ''png''), (''output path'', PStr ''./out''),
      (''output name'', PStr ''fig''), (''title'', PStr ''T''), (''dpi'', PInt 100)]"

definition untitled_figure_conf :: pydict where
  "untitled_figure_conf =
     [(''layout'', PList [PInt 1, PInt 2]), (''figure size'', PList [PInt 8, PInt 6]),
      (''figure file type'', PStr ''png''), (''output path'', PStr ''./out''),
      (''output name'', PStr ''fig''), (''dpi'', PInt 100)]"

definition typeless_figure_conf :: pydict where
  "typeless_figure_conf =
     [(''layout'', PList [PInt 1, PInt 2]), (''figure size'', PList [PInt 8, PInt 6]),
      (''output path'', PStr ''./out''), (''output name'', PStr ''fig''),
      (''title'', PStr ''T''), (''dpi'', PInt 100)]"

definition store_of :: "pydict \<Rightarrow> store" where
  "store_of d = (\<lambda>a. if a = 0 then d else [])"

definition start_world :: world where
  "start_world = \<lparr>heap = store_of example_figure_conf, trace = []\<rparr>"

section \<open>Properties of the string helpers\<close>

lemma ch_isupper_cases:
  "ch_isupper c \<Longrightarrow> ch_upper (ch_lower c) = c \<and> ch_lower c \<noteq> CHR ''_'' \<and> c \<noteq> CHR ''_''"
  unfolding ch_isupper_def ascii_uppercase_def
  apply (simp only: set_simps insert_iff empty_iff)
  apply (elim disjE)
  apply (simp_all add: ch_upper_def ch_lower_def ascii_uppercase_def ascii_lowercase_def)
  done

lemma ch_islower_cases:
  "ch_islower c \<Longrightarrow> ch_lower c = c \<and> \<not> ch_isupper c \<and> c \<noteq> CHR ''_''"
  unfolding ch_islower_def ascii_lowercase_def
  apply (simp only: set_simps insert_iff empty_iff)
  apply (elim disjE)
  apply (simp_all add: ch_isupper_def ch_lower_def ascii_uppercase_def ascii_lowercase_def)
  done

section \<open>Config\<close>

text \<open>
  C1 (construction of the configuration succeeds and gives the entries of the
  dictionary, or the parsed YAML mapping). The constructor first prints
  \<open>eva_class_name\<close>, a name that is neither a local variable of \<open>__init__\<close> nor
  bound in base.py nor a builtin: whatever it is given, a dictionary or a YAML source,
  the construction ends in a \<open>NameError\<close> and no configuration object is made.
\<close>

theorem Config_init_raises:
  "Config_init read_yaml dict_or_yaml = Inl (NameError ''eva_class_name'')"
  by (simp add: Config_init_def load_global_def base_globals_def builtins_used_def)

section \<open>get_schema\<close>


text \<open>
  C2 (an override key that is neither in the base mapping nor in the ignore-list is
  rejected with an error naming it). The condition of the loop is
  \<open>key in fullConfig or skipvars\<close>, and the list \<open>skipvars\<close> is not empty, so the
  condition holds for every key. With the base schema \<open>{layout: [1, 1]}\<close> and the
  overrides \<open>{bogus: 1}\<close> the merge returns a mapping that holds \<open>bogus\<close>.
\<close>

theorem get_schema_accepts_unknown_key:
  "get_schema (\<lambda>f. Inr [(''layout'', PList [PInt 1, PInt 1])]) (PStr ''figure.yaml'')
     [(''bogus'', PInt 1)]
   = Inr [(''layout'', PList [PInt 1, PInt 1]), (''bogus'', PInt 1)]"
  by (simp add: get_schema_def load_yaml_file_def list_truth_def skipvars_def dict_setitem_def)

section \<open>camelcase_to_underscore\<close>

lemma underscore_loop_concat:
  "underscore_loop acc s = acc @ concat (map new_element s)"
  by (induction s arbitrary: acc) simp_all

lemma recapitalize_keep:
  "c \<noteq> CHR ''_'' \<Longrightarrow> recapitalize (c # xs) = c # recapitalize xs"
  by (cases xs) simp_all

lemma recapitalize_new_elements:
  "list_all ch_isalpha s \<Longrightarrow> recapitalize (concat (map new_element s)) = s"
proof (induction s)
  case Nil
  then show ?case by simp
next
  case (Cons c s)
  show ?case
  proof (cases "ch_isupper c")
    case True
    then show ?thesis using Cons by (simp add: new_element_def ch_isupper_cases)
  next
    case False
    with Cons.prems have "ch_islower c" by (simp add: ch_isalpha_def)
    then have "c \<noteq> CHR ''_''" by (simp add: ch_islower_cases)
    then show ?thesis using Cons False by (simp add: new_element_def recapitalize_keep)
  qed
qed

text \<open>
  C5 (the conversion of a non-empty alphabetic string; the round trip). For a string of
  ASCII letters the conversion returns the string made by mapping each upper case
  character to an underscore and its lower case form, keeping the others, and
  stripping one leading underscore; the result is not empty and does not start with an
  underscore. Putting capitalisation back at each underscore boundary gives the input
  with its first character in lower case: the input itself when it starts in lower
  case, and otherwise the input is found by putting the stripped underscore back first.
\<close>

theorem camelcase_to_underscore_alphabetic:
  assumes "str_isalpha S"
  shows "\<exists>r. camelcase_to_underscore (PStr S) = Inr r
           \<and> r = (let u = concat (map (\<lambda>c. if ch_isupper c then [CHR ''_'', ch_lower c] else [c]) S)
                  in if hd u = CHR ''_'' then tl u else u)
           \<and> r \<noteq> [] \<and> hd r \<noteq> CHR ''_''
           \<and> recapitalize r = ch_lower (hd S) # tl S
           \<and> recapitalize (if ch_isupper (hd S) then CHR ''_'' # r else r) = S"
proof -
  from assms obtain c s where S: "S = c # s" and c: "ch_isalpha c" and s: "list_all ch_isalpha s"
    by (cases S) (auto simp: str_isalpha_def)
  have ne: "new_element = (\<lambda>c. if ch_isupper c then [CHR ''_'', ch_lower c] else [c])"
    by (rule ext) (simp add: new_element_def)
  let ?rest = "concat (map new_element s)"
  have rest: "recapitalize ?rest = s" using s by (rule recapitalize_new_elements)
  show ?thesis
  proof (cases "ch_isupper c")
    case True
    then have l: "ch_lower c \<noteq> CHR ''_''" and u: "ch_upper (ch_lower c) = c"
      by (simp_all add: ch_isupper_cases)
    have "camelcase_to_underscore (PStr S) = Inr (ch_lower c # ?rest)"
      using assms True by (simp add: camelcase_to_underscore_def underscore_loop_concat S new_element_def)
    then show ?thesis using True l u rest
      by (simp add: S ne [symmetric] new_element_def recapitalize_keep)
  next
    case False
    with c have lo: "ch_islower c" by (simp add: ch_isalpha_def)
    then have l: "c \<noteq> CHR ''_''" and u: "ch_lower c = c" by (simp_all add: ch_islower_cases)
    have "camelcase_to_underscore (PStr S) = Inr (c # ?rest)"
      using assms False l by (simp add: camelcase_to_underscore_def underscore_loop_concat S new_element_def)
    then show ?thesis using False l u rest
      by (simp add: S ne [symmetric] new_element_def recapitalize_keep)
  qed
qed

theorem camelcase_to_underscore_alphabetic_witness:
  "str_isalpha ''ObsCorrelationScatter''
   \<and> camelcase_to_underscore (PStr ''ObsCorrelationScatter'') = Inr ''obs_correlation_scatter''
   \<and> recapitalize ''obs_correlation_scatter'' = ''obsCorrelationScatter''
   \<and> recapitalize ''_obs_correlation_scatter'' = ''ObsCorrelationScatter''"
  using camelcase_to_underscore_alphabetic [of "''ObsCorrelationScatter''"]
  by (simp add: str_isalpha_def ch_isalpha_def ch_isupper_def ch_islower_def ch_lower_def ch_upper_def
      ascii_uppercase_def ascii_lowercase_def)

text \<open>
  The round trip on the result alone fails on a string that starts in upper case:
  \<open>Abc\<close> and \<open>abc\<close> have the same conversion, so nothing computed from the result
  gives back both.
\<close>

theorem camelcase_to_underscore_roundtrip_counterexample:
  "camelcase_to_underscore (PStr ''Abc'') = Inr ''abc''
   \<and> camelcase_to_underscore (PStr ''abc'') = Inr ''abc''
   \<and> recapitalize ''abc'' \<noteq> ''Abc''"
  by (simp add: camelcase_to_underscore_def new_element_def str_isalpha_def ch_isalpha_def ch_isupper_def ch_islower_def ch_lower_def ch_upper_def
      ascii_uppercase_def ascii_lowercase_def)

section \<open>get_saveargs\<close>

lemma map_of_filter_keys:
  "map_of (filter (\<lambda>kv. P (fst kv)) al) k = (if P k then map_of al k else None)"
  by (induction al) auto

lemma delvars_loop_frame:
  "delvars_loop a ds h = (r, h') \<Longrightarrow> b \<noteq> a \<Longrightarrow> h' b = h b"
  by (induction ds arbitrary: h) (auto simp: dict_delitem_def split: option.splits)

lemma delvars_loop_returns:
  "delvars_loop a ds h = (Inr u, h') \<Longrightarrow>
     h' a = filter (\<lambda>kv. fst kv \<notin> set ds) (h a)"
proof (induction ds arbitrary: h)
  case Nil
  then show ?case by simp
next
  case (Cons d ds)
  from Cons.prems obtain v where v: "map_of (h a) d = Some v"
    and rest: "delvars_loop a ds (h(a := AList.delete d (h a))) = (Inr u, h')"
    by (auto simp: dict_delitem_def split: option.splits)
  have "h' a = filter (\<lambda>kv. fst kv \<notin> set ds) (AList.delete d (h a))"
    using Cons.IH [OF rest] by simp
  also have "\<dots> = filter (\<lambda>kv. fst kv \<notin> set (d # ds)) (h a)"
    by (auto simp: AList.delete_eq intro: filter_cong)
  finally show ?case .
qed

lemma delvars_loop_succeeds:
  "distinct ds \<Longrightarrow> list_all (dict_contains (h a)) ds \<Longrightarrow> \<exists>h'. delvars_loop a ds h = (Inr (), h')"
proof (induction ds arbitrary: h)
  case Nil
  then show ?case by simp
next
  case (Cons d ds)
  from Cons.prems obtain v where v: "map_of (h a) d = Some v"
    by (auto simp: dict_contains_def split: option.splits)
  let ?h = "h(a := AList.delete d (h a))"
  have "list_all (dict_contains (?h a)) ds"
    using Cons.prems by (auto simp: list_all_iff dict_contains_def delete_conv split: option.splits)
  moreover have "distinct ds" using Cons.prems by simp
  ultimately obtain h' where "delvars_loop a ds ?h = (Inr (), h')"
    using Cons.IH [of ?h] by blast
  then show ?case using v by (simp add: dict_delitem_def)
qed

text \<open>
  C4 (the save arguments are the configuration without the structural keys, with
  \<open>format\<close> set from the file type or \<open>png\<close>; the computation succeeds without a
  title). \<open>get_saveargs\<close> deletes each of the five keys with \<open>del\<close>, and reads the
  file type with a subscript: on a configuration without the optional title it raises
  \<open>KeyError\<close> for \<open>title\<close>, and on one without the file type it raises \<open>KeyError\<close>
  for \<open>figure file type\<close> where \<open>make_figure\<close> itself falls back on \<open>png\<close>.
\<close>

theorem get_saveargs_title_absent:
  "fst (get_saveargs 0 (store_of untitled_figure_conf)) = Inl (KeyError ''title'')
   \<and> fst (get_saveargs 0 (store_of typeless_figure_conf)) = Inl (KeyError ''figure file type'')"
  by (simp add: get_saveargs_def store_of_def untitled_figure_conf_def typeless_figure_conf_def
      delvars_def dict_getitem_def dict_setitem_def dict_delitem_def)

text \<open>
  C9 (\<open>get_saveargs\<close> returns the mapping object it was given, changed in place).
  When the five keys are present the call returns; and whenever it returns, what it
  returns is the address it was given, the mapping at that address has lost the five
  keys and holds \<open>format\<close> with the value \<open>figure file type\<close> had, and no other
  address of the store has changed.
\<close>

theorem get_saveargs_in_place:
  "(list_all (dict_contains (h figure_conf)) delvars
      \<longrightarrow> (\<exists>h'. get_saveargs figure_conf h = (Inr figure_conf, h')))
   \<and> (\<forall>out_conf h'. get_saveargs figure_conf h = (Inr out_conf, h') \<longrightarrow>
         out_conf = figure_conf
         \<and> list_all (\<lambda>k. \<not> dict_contains (h' figure_conf) k) delvars
         \<and> dict_contains (h' figure_conf) ''format''
         \<and> dict_getitem (h' figure_conf) ''format'' = dict_getitem (h figure_conf) ''figure file type''
         \<and> (\<forall>a. a \<noteq> figure_conf \<longrightarrow> h' a = h a))"
proof (intro conjI allI impI)
  assume all: "list_all (dict_contains (h figure_conf)) delvars"
  then obtain ft where ft: "map_of (h figure_conf) ''figure file type'' = Some ft"
    by (auto simp: delvars_def dict_contains_def split: option.splits)
  let ?h1 = "h(figure_conf := dict_setitem ''format'' ft (h figure_conf))"
  have "list_all (dict_contains (?h1 figure_conf)) delvars"
    using all by (auto simp: list_all_iff dict_contains_def dict_setitem_def update_conv split: option.splits)
  moreover have "distinct delvars" by (simp add: delvars_def)
  ultimately obtain h' where "delvars_loop figure_conf delvars ?h1 = (Inr (), h')"
    using delvars_loop_succeeds by blast
  then show "\<exists>h'. get_saveargs figure_conf h = (Inr figure_conf, h')"
    using ft by (simp add: get_saveargs_def dict_getitem_def)
next
  fix out_conf h'
  assume run: "get_saveargs figure_conf h = (Inr out_conf, h')"
  then obtain ft where ft: "map_of (h figure_conf) ''figure file type'' = Some ft"
    by (auto simp: get_saveargs_def dict_getitem_def split: option.splits)
  let ?h1 = "h(figure_conf := dict_setitem ''format'' ft (h figure_conf))"
  from run ft have loop: "delvars_loop figure_conf delvars ?h1 = (Inr (), h')"
    and out: "out_conf = figure_conf"
    by (auto simp: get_saveargs_def dict_getitem_def Let_def split: prod.splits sum.splits)
  have h': "h' figure_conf = filter (\<lambda>kv. fst kv \<notin> set delvars) (dict_setitem ''format'' ft (h figure_conf))"
    using delvars_loop_returns [OF loop] by simp
  have m: "map_of (h' figure_conf) = (\<lambda>k. if k \<in> set delvars then None else ((map_of (h figure_conf))(''format'' \<mapsto> ft)) k)"
    unfolding h' dict_setitem_def
    by (rule ext) (simp add: map_of_filter_keys [where P = "\<lambda>k. k \<notin> set delvars"] update_conv')
  show "out_conf = figure_conf" by (rule out)
  show "list_all (\<lambda>k. \<not> dict_contains (h' figure_conf) k) delvars"
    by (simp add: list_all_iff dict_contains_def m)
  show "dict_contains (h' figure_conf) ''format''"
    by (simp add: dict_contains_def m delvars_def)
  show "dict_getitem (h' figure_conf) ''format'' = dict_getitem (h figure_conf) ''figure file type''"
    by (simp add: dict_getitem_def m ft delvars_def)
  show "\<And>a. a \<noteq> figure_conf \<Longrightarrow> h' a = h a"
    using delvars_loop_frame [OF loop] by simp
qed

theorem get_saveargs_in_place_witness:
  "list_all (dict_contains (store_of example_figure_conf 0)) delvars
   \<and> get_saveargs 0 (store_of example_figure_conf)
     = (Inr 0, (store_of example_figure_conf)
                 (0 := [(''output name'', PStr ''fig''), (''dpi'', PInt 100), (''format'', PStr ''png'')]))
   \<and> \<not> dict_contains (snd (get_saveargs 0 (store_of example_figure_conf)) 0) ''title''
   \<and> dict_contains (snd (get_saveargs 0 (store_of example_figure_conf)) 0) ''format''"
proof -
  have pre: "list_all (dict_contains (store_of example_figure_conf 0)) delvars"
    by (simp add: store_of_def example_figure_conf_def delvars_def dict_contains_def)
  have run: "get_saveargs 0 (store_of example_figure_conf)
     = (Inr 0, (store_of example_figure_conf)
                 (0 := [(''output name'', PStr ''fig''), (''dpi'', PInt 100), (''format'', PStr ''png'')]))"
    by (simp add: get_saveargs_def store_of_def example_figure_conf_def delvars_def
        dict_getitem_def dict_setitem_def dict_delitem_def)
  from get_saveargs_in_place [of "store_of example_figure_conf" 0] run pre
  show ?thesis by (simp add: delvars_def)
qed

section \<open>The batch loop\<close>

lemma digit_char_cases:
  "d < 10 \<Longrightarrow> digit_val (digit_char d) = d \<and> digit_char d \<in> set ''0123456789''"
proof -
  assume "d < 10"
  then have "d \<in> {0, 1, 2, 3, 4, 5, 6, 7, 8, 9}" by auto
  then show ?thesis by (auto simp: digit_char_def)
qed

lemma str_nat_digits: "set (str_nat n) \<subseteq> set ''0123456789'' \<and> str_nat n \<noteq> []"
proof (induction n rule: str_nat.induct)
  case (1 n)
  show ?case
  proof (cases "n < 10")
    case True
    then show ?thesis using digit_char_cases [of n] by (subst str_nat.simps, subst str_nat.simps) simp
  next
    case False
    moreover have "n mod 10 < 10" by simp
    ultimately show ?thesis using 1 digit_char_cases [of "n mod 10"]
      by (subst str_nat.simps, subst str_nat.simps) simp
  qed
qed

lemma parse_nat_str_nat: "parse_nat (str_nat n) = n"
proof (induction n rule: str_nat.induct)
  case (1 n)
  show ?case
  proof (cases "n < 10")
    case True
    then show ?thesis using digit_char_cases [of n]
      by (subst str_nat.simps) (simp add: parse_nat_def del: digit_val.simps)
  next
    case False
    moreover have "n mod 10 < 10" by simp
    ultimately show ?thesis using 1 digit_char_cases [of "n mod 10"]
      by (subst str_nat.simps) (simp add: parse_nat_def del: digit_val.simps)
  qed
qed

lemma str_nat_inj: "str_nat m = str_nat n \<Longrightarrow> m = n"
  by (metis parse_nat_str_nat)

lemma str_int_inj: "str_int i = str_int j \<Longrightarrow> i = j"
proof -
  assume eq: "str_int i = str_int j"
  have nd: "CHR ''-'' \<notin> set (str_nat n)" for n using str_nat_digits [of n] by auto
  have ne: "str_nat n \<noteq> []" for n using str_nat_digits [of n] by simp
  have hd: "hd (str_nat n) \<noteq> CHR ''-''" for n using nd [of n] ne [of n] by (cases "str_nat n") auto
  show ?thesis
  proof (cases "i < 0")
    case True
    show ?thesis
    proof (cases "j < 0")
      case True
      with \<open>i < 0\<close> eq have "nat (- i) = nat (- j)" by (auto simp: str_int_def dest: str_nat_inj)
      with True \<open>i < 0\<close> show ?thesis by simp
    next
      case False
      with True eq have "str_nat (nat j) = CHR ''-'' # str_nat (nat (- i))" by (simp add: str_int_def)
      then have "hd (str_nat (nat j)) = CHR ''-''" by simp
      with hd [of "nat j"] show ?thesis by simp
    qed
  next
    case False
    show ?thesis
    proof (cases "j < 0")
      case True
      with False eq have "str_nat (nat i) = CHR ''-'' # str_nat (nat (- j))" by (simp add: str_int_def)
      then have "hd (str_nat (nat i)) = CHR ''-''" by simp
      with hd [of "nat i"] show ?thesis by simp
    next
      case False
      with \<open>\<not> i < 0\<close> eq have "nat i = nat j" by (auto simp: str_int_def dest: str_nat_inj)
      with False \<open>\<not> i < 0\<close> show ?thesis by simp
    qed
  qed
qed

lemma str_int_chars: "CHR '' '' \<notin> set (str_int i) \<and> str_int i \<noteq> ''none''"
proof -
  have d: "set (str_nat n) \<subseteq> set ''0123456789''" and ne: "str_nat n \<noteq> []" for n
    using str_nat_digits [of n] by simp_all
  have sp: "CHR '' '' \<notin> set (str_nat n)" and n: "CHR ''n'' \<notin> set (str_nat n)" for n
    using d [of n] by auto
  have "str_nat m \<noteq> ''none''" for m
  proof
    assume "str_nat m = ''none''"
    then have "CHR ''n'' \<in> set (str_nat m)" by simp
    with n [of m] show False by simp
  qed
  with sp show ?thesis by (auto simp: str_int_def)
qed












lemma batch_conf_this_eq:
  "batch_conf_this U variable channel =
     (if str_channel channel = ''none''
      then [(''variable'', variable),
            (''variable_title'', str_title U (str_replace (CHR ''_'') (CHR '' '') variable))]
      else [(''variable'', variable),
            (''variable_title'',
               str_title U (str_replace (CHR ''_'') (CHR '' '') variable) @ '' Ch. '' @ str_channel channel),
            (''channel'', str_channel channel)])"
  by (simp add: batch_conf_this_def Let_def)

lemma channels_loop_record:
  "channels_loop U rv record_figure fc pc (PStr v) cs log =
     (Inr (), log @ map (\<lambda>c. (rv fc (batch_conf_this U v c), rv pc (batch_conf_this U v c))) cs)"
  by (induction cs arbitrary: log) (simp_all add: record_figure_def copy_copy_def Let_def)

lemma variables_loop_record:
  "variables_loop U rv record_figure fc pc (map PStr vs) cs log =
     (Inr (), log @ concat (map (\<lambda>v. map (\<lambda>c. (rv fc (batch_conf_this U v c), rv pc (batch_conf_this U v c))) cs) vs))"
  by (induction vs arbitrary: log) (simp_all add: channels_loop_record)

lemma concat_map_product:
  "concat (map (\<lambda>v. map (f v) cs) vs) = map (\<lambda>(v, c). f v c) (List.product vs cs)"
  by (induction vs) simp_all

lemma length_concat_map_const:
  "length (concat (map (\<lambda>v. map (f v) cs) vs)) = length vs * length cs"
  by (induction vs) simp_all

lemma first_sep_unique:
  "x \<notin> set s \<Longrightarrow> x \<notin> set t \<Longrightarrow> s @ x # a = t @ x # b \<Longrightarrow> s = t \<and> a = b"
proof (induction s arbitrary: t)
  case Nil
  then show ?case by (cases t) auto
next
  case (Cons y s)
  then show ?case by (cases t) auto
qed

lemma append_sep_unique:
  assumes "a @ x # s = b @ x # t" and "x \<notin> set s" and "x \<notin> set t"
  shows "a = b \<and> s = t"
proof -
  from assms(1) have "rev (a @ x # s) = rev (b @ x # t)" by simp
  then have "rev s @ x # rev a = rev t @ x # rev b" by simp
  moreover have "x \<notin> set (rev s)" "x \<notin> set (rev t)" using assms by simp_all
  ultimately have "rev s = rev t \<and> rev a = rev b"
    by (rule first_sep_unique [rotated 2])
  then show ?thesis by simp
qed

lemma channel_title_unique:
  assumes "T @ '' Ch. '' @ s = T' @ '' Ch. '' @ s'"
    and "CHR '' '' \<notin> set s" and "CHR '' '' \<notin> set s'"
  shows "T = T' \<and> s = s'"
proof -
  from assms(1) have "(T @ '' Ch.'') @ CHR '' '' # s = (T' @ '' Ch.'') @ CHR '' '' # s'" by simp
  from append_sep_unique [OF this assms(2,3)] show ?thesis by simp
qed


lemma channel_titles_inj:
  assumes V: "distinct (map (variable_title U) V)"
    and C: "distinct (map str_channel C)"
    and sp: "list_all (\<lambda>c. CHR '' '' \<notin> set (str_channel c) \<and> str_channel c \<noteq> ''none'') C"
  shows "distinct (concat (map (\<lambda>v. map (\<lambda>c. map_of (batch_conf_this U v c) ''variable_title'') C) V))"
proof -
  let ?f = "\<lambda>(v, c). map_of (batch_conf_this U v c) ''variable_title''"
  have dV: "distinct V" and dC: "distinct C" using V C by (auto simp: distinct_map)
  have "inj_on ?f (set (List.product V C))"
  proof (rule inj_onI, clarify)
    fix v c v' c'
    assume mem: "(v, c) \<in> set (List.product V C)" "(v', c') \<in> set (List.product V C)"
      and eq: "map_of (batch_conf_this U v c) ''variable_title'' = map_of (batch_conf_this U v' c') ''variable_title''"
    from mem sp have c: "CHR '' '' \<notin> set (str_channel c)" "str_channel c \<noteq> ''none''"
      and c': "CHR '' '' \<notin> set (str_channel c')" "str_channel c' \<noteq> ''none''"
      by (auto simp: list_all_iff)
    from eq c(2) c'(2)
    have "variable_title U v @ '' Ch. '' @ str_channel c = variable_title U v' @ '' Ch. '' @ str_channel c'"
      by (simp add: batch_conf_this_eq variable_title_def)
    from channel_title_unique [OF this c(1) c'(1)]
    have "variable_title U v = variable_title U v'" and "str_channel c = str_channel c'" by simp_all
    moreover from V have "inj_on (variable_title U) (set V)" by (simp add: distinct_map)
    moreover from C have "inj_on str_channel (set C)" by (simp add: distinct_map)
    ultimately show "v = v' \<and> c = c'" using mem by (auto dest: inj_onD)
  qed
  then have "distinct (map ?f (List.product V C))"
    using dV dC by (simp add: distinct_map distinct_product)
  then show ?thesis by (simp add: concat_map_product)
qed


lemma channels_loop_none:
  "str_channel channel = ''none'' \<Longrightarrow>
     channels_loop U rv mk fc pc variable [channel] w = channels_loop U rv mk fc pc variable [ChanStr ''none''] w"
  by (cases variable) (simp_all add: batch_conf_this_eq str_channel_def)

lemma variables_loop_none:
  "str_channel channel = ''none'' \<Longrightarrow>
     variables_loop U rv mk fc pc vs [channel] w = variables_loop U rv mk fc pc vs [ChanStr ''none''] w"
proof (induction vs arbitrary: w)
  case Nil
  then show ?case by simp
next
  case (Cons v vs)
  then show ?case
    by (simp only: variables_loop.simps channels_loop_none [OF Cons.prems] split: prod.splits sum.splits)
qed

text \<open>
  C6 (the number, the order and the titles of the figures of a batch). With a
  \<open>make_figure\<close> that records its arguments, a non-empty list of variables \<open>V\<close> and
  channels \<open>C\<close>, the loops call it on the filled configurations of the pairs of \<open>V\<close>
  and \<open>C\<close> (or of the one channel \<open>none\<close> when \<open>C\<close> is empty), variables outside and
  channels inside, in their given order: \<open>length V * max (length C) 1\<close> calls. The
  titles of the iterations are pairwise distinct when the title forms of the variables
  are, and the string forms of the channels are pairwise distinct, hold no space and
  are not \<open>none\<close>; pairwise distinct channel numbers are such channels.
\<close>

theorem batch_loops_figures:
  assumes "V \<noteq> []"
  shows "batch_loops U rv record_figure fc pc (PList (map PStr V)) C []
           = (Inr (), concat (map (\<lambda>v. map (\<lambda>c. (rv fc (batch_conf_this U v c), rv pc (batch_conf_this U v c)))
                                      (if C = [] then [ChanStr ''none''] else C)) V))
         \<and> length (snd (batch_loops U rv record_figure fc pc (PList (map PStr V)) C []))
             = length V * max (length C) 1
         \<and> (distinct (map (variable_title U) V) \<and> distinct (map str_channel C)
            \<and> list_all (\<lambda>c. CHR '' '' \<notin> set (str_channel c) \<and> str_channel c \<noteq> ''none'') C
              \<longrightarrow> distinct (concat (map (\<lambda>v. map (\<lambda>c. map_of (batch_conf_this U v c) ''variable_title'')
                                      (if C = [] then [ChanStr ''none''] else C)) V)))
         \<and> (distinct (map (variable_title U) V) \<and> (\<exists>cs. C = map ChanInt cs \<and> distinct cs)
              \<longrightarrow> distinct (concat (map (\<lambda>v. map (\<lambda>c. map_of (batch_conf_this U v c) ''variable_title'')
                                      (if C = [] then [ChanStr ''none''] else C)) V)))"
proof -
  let ?C = "if C = [] then [ChanStr ''none''] else C"
  have run: "batch_loops U rv record_figure fc pc (PList (map PStr V)) C []
           = (Inr (), concat (map (\<lambda>v. map (\<lambda>c. (rv fc (batch_conf_this U v c), rv pc (batch_conf_this U v c))) ?C) V))"
    using assms by (simp add: batch_loops_def py_iter_def variables_loop_record)
  have len: "length ?C = max (length C) 1" by (cases C) simp_all
  have count: "length (snd (batch_loops U rv record_figure fc pc (PList (map PStr V)) C []))
             = length V * max (length C) 1"
    unfolding run snd_conv length_concat_map_const len ..
  have titles: "distinct (concat (map (\<lambda>v. map (\<lambda>c. map_of (batch_conf_this U v c) ''variable_title'') ?C) V))"
    if V: "distinct (map (variable_title U) V)" and C: "distinct (map str_channel C)"
      and sp: "list_all (\<lambda>c. CHR '' '' \<notin> set (str_channel c) \<and> str_channel c \<noteq> ''none'') C"
  proof (cases "C = []")
    case True
    have "concat (map (\<lambda>v. map (\<lambda>c. map_of (batch_conf_this U v c) ''variable_title'') [ChanStr ''none'']) V)
            = map Some (map (variable_title U) V)"
      by (induction V) (simp_all add: batch_conf_this_eq str_channel_def variable_title_def)
    then show ?thesis using True V by (simp add: distinct_map del: map_map)
  next
    case False
    then show ?thesis using channel_titles_inj [OF V C sp] by simp
  qed
  have numbers: "distinct (concat (map (\<lambda>v. map (\<lambda>c. map_of (batch_conf_this U v c) ''variable_title'') ?C) V))"
    if V: "distinct (map (variable_title U) V)" and cs: "\<exists>cs. C = map ChanInt cs \<and> distinct cs"
  proof -
    from cs obtain cs where C: "C = map ChanInt cs" and d: "distinct cs" by blast
    have "inj_on str_int (set cs)" by (rule inj_onI) (rule str_int_inj)
    then have "distinct (map str_channel C)"
      using d by (simp add: C distinct_map comp_def str_channel_def)
    moreover have "list_all (\<lambda>c. CHR '' '' \<notin> set (str_channel c) \<and> str_channel c \<noteq> ''none'') C"
      by (simp add: C list_all_iff str_channel_def str_int_chars)
    ultimately show ?thesis using V by (rule titles [rotated])
  qed
  from run count titles numbers show ?thesis by blast
qed

text \<open>
  Without those conditions two iterations can have one title: the variables
  \<open>air_temp\<close> and \<open>air temp\<close> both have the title \<open>Air Temp\<close>.
\<close>

theorem batch_titles_counterexample:
  "snd (batch_loops no_unicode_title title_only record_figure (PDict []) (PList [])
          (PList [PStr ''air_temp'', PStr ''air temp'']) [] [])
     = [(PStr ''Air Temp'', PStr ''Air Temp''), (PStr ''Air Temp'', PStr ''Air Temp'')]
   \<and> map_of (batch_conf_this no_unicode_title ''air_temp'' (ChanStr ''none'')) ''variable_title''
       = map_of (batch_conf_this no_unicode_title ''air temp'' (ChanStr ''none'')) ''variable_title''"
proof -
  have t1: "str_title no_unicode_title (str_replace (CHR ''_'') (CHR '' '') ''air_temp'') = ''Air Temp''"
    by (simp add: str_title_def str_isascii_def str_replace_def ch_upper_def ch_lower_def ch_isalpha_def
        ch_isupper_def ch_islower_def ascii_uppercase_def ascii_lowercase_def)
  have t2: "str_title no_unicode_title (str_replace (CHR ''_'') (CHR '' '') ''air temp'') = ''Air Temp''"
    by (simp add: str_title_def str_isascii_def str_replace_def ch_upper_def ch_lower_def ch_isalpha_def
        ch_isupper_def ch_islower_def ascii_uppercase_def ascii_lowercase_def)
  show ?thesis
    by (simp add: batch_loops_def py_iter_def record_figure_def copy_copy_def title_only_def
        batch_conf_this_eq str_channel_def t1 t2)
qed

theorem batch_loops_figures_witness:
  "[''temperature'', ''air_temp''] \<noteq> []
   \<and> snd (batch_loops no_unicode_title title_only record_figure (PDict []) (PList [])
          (PList (map PStr [''temperature'', ''air_temp''])) [ChanInt 1, ChanInt 2] [])
     = [(PStr ''Temperature Ch. 1'', PStr ''Temperature Ch. 1''),
        (PStr ''Temperature Ch. 2'', PStr ''Temperature Ch. 2''),
        (PStr ''Air Temp Ch. 1'', PStr ''Air Temp Ch. 1''),
        (PStr ''Air Temp Ch. 2'', PStr ''Air Temp Ch. 2'')]
   \<and> length (snd (batch_loops no_unicode_title title_only record_figure (PDict []) (PList [])
          (PList (map PStr [''temperature'', ''air_temp''])) [ChanInt 1, ChanInt 2] [])) = 2 * max 2 1
   \<and> distinct (map (variable_title no_unicode_title) [''temperature'', ''air_temp''])
   \<and> distinct (map str_channel [ChanInt 1, ChanInt 2])
   \<and> list_all (\<lambda>c. CHR '' '' \<notin> set (str_channel c) \<and> str_channel c \<noteq> ''none'')
         [ChanInt 1, ChanInt 2]
   \<and> [ChanInt 1, ChanInt 2] = map ChanInt [1, 2] \<and> distinct [1 :: int, 2]
   \<and> distinct [Some ''Temperature Ch. 1'', Some ''Temperature Ch. 2'',
                 Some ''Air Temp Ch. 1'', Some ''Air Temp Ch. 2'']"
proof -
  have ne: "[''temperature'', ''air_temp''] \<noteq> []" by simp
  have one: "str_int 1 = ''1''" and two: "str_int 2 = ''2''"
    by (simp_all add: str_int_def str_nat.simps digit_char_def)
  have t1: "str_title no_unicode_title (str_replace (CHR ''_'') (CHR '' '') ''temperature'') = ''Temperature''"
    by (simp add: str_title_def str_isascii_def str_replace_def ch_upper_def ch_lower_def ch_isalpha_def
        ch_isupper_def ch_islower_def ascii_uppercase_def ascii_lowercase_def)
  have t2: "str_title no_unicode_title (str_replace (CHR ''_'') (CHR '' '') ''air_temp'') = ''Air Temp''"
    by (simp add: str_title_def str_isascii_def str_replace_def ch_upper_def ch_lower_def ch_isalpha_def
        ch_isupper_def ch_islower_def ascii_uppercase_def ascii_lowercase_def)
  from batch_loops_figures [OF ne, where U = no_unicode_title and rv = title_only
      and fc = "PDict []" and pc = "PList []" and C = "[ChanInt 1, ChanInt 2]"]
  show ?thesis
    by (simp add: title_only_def batch_conf_this_eq str_channel_def variable_title_def one two t1 t2)
qed



text \<open>
  C10 (a channel whose string form is \<open>none\<close> is taken for the missing channel).
  For such a channel the mapping of an iteration is the one of the channel \<open>none\<close>:
  it has no \<open>channel\<close> key, and its title is the title form of the variable alone;
  and the batch loops over this one channel do what they do over no channel at all.
\<close>

theorem none_channel_is_sentinel:
  assumes "str_channel channel = ''none''"
  shows "batch_conf_this U variable channel = batch_conf_this U variable (ChanStr ''none'')
       \<and> map_of (batch_conf_this U variable channel) ''channel'' = None
       \<and> map_of (batch_conf_this U variable channel) ''variable_title'' = Some (variable_title U variable)
       \<and> batch_loops U rv mk fc pc variables [channel] w
           = batch_loops U rv mk fc pc variables [] w"
proof -
  have "batch_loops U rv mk fc pc variables [channel] w = batch_loops U rv mk fc pc variables [] w"
    by (simp add: batch_loops_def variables_loop_none [OF assms] split: sum.splits)
  then show ?thesis
    using assms by (simp add: batch_conf_this_eq str_channel_def variable_title_def)
qed

theorem none_channel_is_sentinel_witness:
  "str_channel (ChanStr ''none'') = ''none''
   \<and> batch_conf_this no_unicode_title ''air_temp'' (ChanStr ''none'')
        = [(''variable'', ''air_temp''), (''variable_title'', ''Air Temp'')]
   \<and> batch_loops no_unicode_title title_only record_figure (PDict []) (PList []) (PList [PStr ''air_temp''])
        [ChanStr ''none''] []
      = batch_loops no_unicode_title title_only record_figure (PDict []) (PList []) (PList [PStr ''air_temp'']) [] []"
proof -
  have h: "str_channel (ChanStr ''none'') = ''none''" by (simp add: str_channel_def)
  have t: "str_title no_unicode_title (str_replace (CHR ''_'') (CHR '' '') ''air_temp'') = ''Air Temp''"
    by (simp add: str_title_def str_isascii_def str_replace_def ch_upper_def ch_lower_def ch_isalpha_def
        ch_isupper_def ch_islower_def ascii_uppercase_def ascii_lowercase_def)
  from none_channel_is_sentinel [OF h, where U = no_unicode_title and variable = "''air_temp''"
      and rv = title_only and mk = record_figure and fc = "PDict []" and pc = "PList []"
      and variables = "PList [PStr ''air_temp'']" and w = "[]"]
  show ?thesis using h by (simp add: batch_conf_this_eq t)
qed

section \<open>make_figure\<close>

lemma before_save_simps:
  "before_save (ImportLayer m c)" "before_save (BuildLayer c l)" "before_save (CreatePlot ls p d)"
  "before_save (PlotMethod n key args)" "before_save (CreateFigure nr nc fs)"
  "before_save (SetPlotList n)" "before_save DrawFigure" "before_save (AddSuptitle t)"
  "\<not> before_save (SaveFigure f k)" "\<not> before_save CloseFigure"
  by (simp_all add: before_save_def)

lemma then_doE:
  assumes "then_do m f w = (r, w')"
  obtains (raised) e where "m w = (Inl e, w')" and "r = Inl e"
        | (returned) x w1 where "m w = (Inr x, w1)" and "f x w1 = (r, w')"
  using assms unfolding then_do_def by (auto split: prod.splits sum.splits)

lemma adds_refl: "adds w w []"
  by (simp add: adds_def)

lemma adds_trans: "adds w w1 t \<Longrightarrow> adds w1 w2 t' \<Longrightarrow> adds w w2 (t @ t')"
  by (simp add: adds_def)

lemma lift_adds: "lift x w = (r, w') \<Longrightarrow> w' = w"
  by (simp add: lift_def)

lemma call_ext_adds:
  "call_ext ext ev w = (r, w') \<Longrightarrow> adds w w' [ev] \<and> r = (case ext ev of None \<Rightarrow> Inr () | Some e \<Rightarrow> Inl e)"
  by (auto simp: call_ext_def adds_def)

lemma layers_loop_adds:
  "layers_loop ext ls acc w = (r, w') \<Longrightarrow> \<exists>t. adds w w' t \<and> list_all before_save t"
proof (induction ls arbitrary: acc w)
  case Nil
  then show ?case by (auto simp: lift_def intro: adds_refl exI [of _ "[]"])
next
  case (Cons layer ls)
  from Cons.prems show ?case
    apply (simp only: layers_loop.simps Let_def)
    apply (elim then_doE)
    apply (auto dest!: lift_adds call_ext_adds Cons.IH simp: adds_def before_save_simps intro: exI [of _ "[]"])
    done
qed


lemma plot_items_loop_adds:
  "plot_items_loop ext plotobj items w = (r, w') \<Longrightarrow> \<exists>t. adds w w' t \<and> list_all before_save t"
proof (induction items arbitrary: w)
  case Nil
  then show ?case by (auto simp: lift_def intro: adds_refl exI [of _ "[]"])
next
  case (Cons item items)
  obtain key val where item: "item = (key, val)" by (cases item)
  from Cons.prems show ?case
    unfolding item
    apply (simp only: plot_items_loop.simps split: if_splits)
     apply (elim then_doE)
      apply (auto dest!: call_ext_adds Cons.IH simp: adds_def before_save_simps split: pyval.splits)
    done
qed

lemma plots_loop_adds:
  "plots_loop ext ps n w = (r, w') \<Longrightarrow> \<exists>t. adds w w' t \<and> list_all before_save t"
proof (induction ps arbitrary: n w)
  case Nil
  then show ?case by (auto simp: lift_def intro: adds_refl exI [of _ "[]"])
next
  case (Cons plot ps)
  from Cons.prems show ?case
    apply (simp only: plots_loop.simps Let_def)
    apply (elim then_doE)
    apply (auto dest!: lift_adds call_ext_adds layers_loop_adds plot_items_loop_adds Cons.IH
        simp: adds_def before_save_simps intro: exI [of _ "[]"])
    done
qed

lemma on_heap_trace: "on_heap f w = (r, w') \<Longrightarrow> trace w' = trace w"
  by (auto simp: on_heap_def split: prod.splits)

lemma get_conf_same: "get_conf a w = (r, w') \<Longrightarrow> w' = w"
  by (simp add: get_conf_def)

lemma log_event_adds: "log_event ev w = (r, w') \<Longrightarrow> adds w w' [ev]"
  by (auto simp: log_event_def adds_def)

lemma before_save_notin:
  "list_all before_save t \<Longrightarrow> (SaveFigure f k \<in> set t) = False"
  "list_all before_save t \<Longrightarrow> (CloseFigure \<in> set t) = False"
  by (auto simp: list_all_iff before_save_simps)

text \<open>
  C3 (the figure is closed even when the save raises). \<open>make_figure\<close> calls
  \<open>save_figure\<close> and then \<open>close_figure\<close> with nothing to catch an exception
  between them. In the events a call of \<open>make_figure\<close> adds, the close is there
  exactly when a save is there that returned; a save that raised ends \<open>make_figure\<close>
  with its exception and without the close; and a \<open>make_figure\<close> that returns has
  closed the figure.
\<close>

theorem make_figure_close_after_save:
  assumes "make_figure ext figure_conf plots w = (r, w')"
  shows "\<exists>t. trace w' = trace w @ t
           \<and> (CloseFigure \<in> set t \<longleftrightarrow> (\<exists>f k. SaveFigure f k \<in> set t \<and> ext (SaveFigure f k) = None))
           \<and> (\<forall>f k e. SaveFigure f k \<in> set t \<and> ext (SaveFigure f k) = Some e
                 \<longrightarrow> r = Inl e \<and> CloseFigure \<notin> set t)
           \<and> (r = Inr () \<longrightarrow> CloseFigure \<in> set t)"
  using assms unfolding make_figure_def Let_def
  apply (elim then_doE)
  apply (auto dest!: lift_adds get_conf_same call_ext_adds log_event_adds on_heap_trace plots_loop_adds
      simp: adds_def before_save_notin split: if_splits option.splits elim!: then_doE)
  done

theorem make_figure_close_after_save_witness:
  "fst (make_figure all_return 0 (PList []) start_world) = Inr ()
   \<and> CloseFigure \<in> set (trace (snd (make_figure all_return 0 (PList []) start_world)))"
proof -
  have r: "fst (make_figure all_return 0 (PList []) start_world) = Inr ()"
    by (simp add: make_figure_def then_do_def lift_def get_conf_def call_ext_def log_event_def
        on_heap_def all_return_def start_world_def store_of_def example_figure_conf_def
        get_output_file_def os_path_join_def dict_get_def dict_getitem_def dict_contains_def
        py_iter_def py_tuple_def py_index_def get_saveargs_def delvars_def dict_setitem_def
        dict_delitem_def)
  have t: "trace start_world = []" by (simp add: start_world_def)
  have run: "make_figure all_return 0 (PList []) start_world
      = (fst (make_figure all_return 0 (PList []) start_world),
         snd (make_figure all_return 0 (PList []) start_world))"
    by simp
  from make_figure_close_after_save [OF run]
  show ?thesis using r t by auto
qed

text \<open>
  With a library whose save raises, \<open>make_figure\<close> ends with that exception, and the
  last call to the library is the save: the figure is not closed.
\<close>

theorem make_figure_save_fails_counterexample:
  "fst (make_figure save_fails 0 (PList []) start_world) = Inl (ExternalError ''save failed'')
   \<and> trace (snd (make_figure save_fails 0 (PList []) start_world))
       = [CreateFigure (PInt 1) (PInt 2) [PInt 8, PInt 6], SetPlotList 0, DrawFigure,
          AddSuptitle (PStr ''T''),
          SaveFigure ''./out/fig''
            [(''output name'', PStr ''fig''), (''dpi'', PInt 100), (''format'', PStr ''png'')]]
   \<and> CloseFigure \<notin> set (trace (snd (make_figure save_fails 0 (PList []) start_world)))"
  by (simp add: make_figure_def then_do_def lift_def get_conf_def call_ext_def log_event_def
      on_heap_def save_fails_def start_world_def store_of_def example_figure_conf_def
      get_output_file_def os_path_join_def dict_get_def dict_getitem_def dict_contains_def
      py_iter_def py_tuple_def py_index_def get_saveargs_def delvars_def dict_setitem_def
      dict_delitem_def)

end
